theory Spec2Isabelle
  imports Main "HOL-Library.Word"
begin

unbundle bit_operations_syntax

section \<open>IPv6 forwarding decision (net/devif/ipv6_forward.c)\<close>

subsection \<open>Build configuration\<close>

text \<open>
  The source selects its code paths with the preprocessor. Each \<open>CONFIG_\<close> symbol the file
  tests is a boolean of the configuration; the three integer widths the file depends on
  (\<open>sizeof(uintptr_t)\<close> in bytes, the bit width of \<open>unsigned int\<close>, the bit width of the
  statistics counter type \<open>net_stats_t\<close>) and the capacity of one I/O buffer are numbers of
  the configuration, since the headers that fix them belong to the target and are not part of
  the file.
\<close>

record config =
  CONFIG_NET_6LOWPAN :: bool
  CONFIG_NET_MULTILINK :: bool
  CONFIG_NET_TCP :: bool
  CONFIG_NET_UDP :: bool
  CONFIG_NET_ICMPv6 :: bool
  CONFIG_NET_STATISTICS :: bool
  CONFIG_NETDEV_MULTINIC :: bool
  sizeof_uintptr :: nat
  uint_bits :: nat
  stats_bits :: nat
  CONFIG_IOB_BUFSIZE :: nat

subsection \<open>Constants of the included headers\<close>

text \<open>
  The protocol numbers, header lengths and errno values are macros of headers that the
  file includes (\<open>nuttx/net/ip.h\<close>, \<open>nuttx/net/tcp.h\<close>, \<open>nuttx/net/udp.h\<close>,
  \<open>nuttx/net/icmpv6.h\<close>, \<open>errno.h\<close>) and that are not at hand. The protocol numbers
  and header lengths are fixed by the IPv6, TCP, UDP and ICMPv6 wire formats; the errno
  values are those of NuttX's errno.h (the proofs use that they are positive and
  distinct). \<open>tcpoffset_off\<close> is the byte offset of the field \<open>tcpoffset\<close> inside
  \<open>struct tcp_hdr_s\<close>, after two ports and two sequence numbers.
\<close>

definition IP_PROTO_TCP :: "8 word" where "IP_PROTO_TCP = 6"
definition IP_PROTO_UDP :: "8 word" where "IP_PROTO_UDP = 17"
definition IP_PROTO_ICMP6 :: "8 word" where "IP_PROTO_ICMP6 = 58"

definition IPv6_HDRLEN :: nat where "IPv6_HDRLEN = 40"
definition UDP_HDRLEN :: nat where "UDP_HDRLEN = 8"
definition ICMPv6_HDRLEN :: nat where "ICMPv6_HDRLEN = 4"
definition tcpoffset_off :: nat where "tcpoffset_off = 12"

definition OK :: int where "OK = 0"
definition ENOMEM :: int where "ENOMEM = 12"
definition ENOSYS :: int where "ENOSYS = 38"
definition EPROTONOSUPPORT :: int where "EPROTONOSUPPORT = 93"
definition EPFNOSUPPORT :: int where "EPFNOSUPPORT = 96"
definition ENETUNREACH :: int where "ENETUNREACH = 101"

subsection \<open>The network header and the memory behind it\<close>

text \<open>
  \<open>struct ipv6_hdr_s\<close>, restricted to the fields the file reads. The bytes of the receive
  buffer are a function from byte offsets, counted from the address of the IPv6 header
  (\<open>ipv6\<close>), to bytes: C reads whatever the address holds, inside the frame or beyond it.
\<close>

type_synonym net_ipv6addr_t = "16 word list"

record ipv6_hdr_s =
  proto :: "8 word"
  srcipaddr :: net_ipv6addr_t
  destipaddr :: net_ipv6addr_t

type_synonym memory = "nat \<Rightarrow> 8 word"

subsection \<open>Header Classifier: ipv6_hdrsize (lines 167-206)\<close>

text \<open>
  Line 177 computes the address of the TCP header as \<open>(uintptr_t *)ipv6 + IPv6_HDRLEN\<close>:
  pointer arithmetic on a \<open>uintptr_t *\<close> advances by \<open>IPv6_HDRLEN\<close> elements of
  \<open>sizeof(uintptr_t)\<close> bytes each.
\<close>

definition tcp_hdr_offset :: "config \<Rightarrow> nat" where
  "tcp_hdr_offset cfg = IPv6_HDRLEN * sizeof_uintptr cfg"

definition tcpsize_of :: "8 word \<Rightarrow> nat" where
  "tcpsize_of tcpoffset = unat (push_bit 2 (drop_bit 4 (ucast tcpoffset :: 16 word)))"

definition ipv6_hdrsize :: "config \<Rightarrow> ipv6_hdr_s \<Rightarrow> memory \<Rightarrow> int" where
  "ipv6_hdrsize cfg ipv6 mem =
     (if CONFIG_NET_TCP cfg \<and> proto ipv6 = IP_PROTO_TCP then
        (let tcpoffset = mem (tcp_hdr_offset cfg + tcpoffset_off);
             tcpsize = tcpsize_of tcpoffset
         in int (IPv6_HDRLEN + tcpsize))
      else if CONFIG_NET_UDP cfg \<and> proto ipv6 = IP_PROTO_UDP then
        int (IPv6_HDRLEN + UDP_HDRLEN)
      else if CONFIG_NET_ICMPv6 cfg \<and> proto ipv6 = IP_PROTO_ICMP6 then
        int (IPv6_HDRLEN + ICMPv6_HDRLEN)
      else - EPROTONOSUPPORT)"

subsection \<open>Devices, statistics, buffers and the trace\<close>

text \<open>
  \<open>enum net_lltype_e\<close> of \<open>nuttx/net/net.h\<close>; the file compares \<open>d_lltype\<close> with
  \<open>NET_LL_IEEE802154\<close> only.
\<close>

datatype net_lltype =
  NET_LL_ETHERNET | NET_LL_LOOPBACK | NET_LL_SLIP | NET_LL_TUN | NET_LL_IEEE802154

text \<open>
  The four drop counters of \<open>g_netstats\<close> that the file increments. A counter is an
  unsigned integer of \<open>stats_bits\<close> bits, so \<open>++\<close> wraps.
\<close>

record netstats =
  icmpv6_drop :: nat
  udp_drop :: nat
  tcp_drop :: nat
  ipv6_drop :: nat

definition stat_incr :: "config \<Rightarrow> nat \<Rightarrow> nat" where
  "stat_incr cfg c = (c + 1) mod 2 ^ stats_bits cfg"

text \<open>
  An I/O buffer chain is the list of its buffers, head first, each with the bytes it holds.
  \<open>None\<close> is the null chain.
\<close>

type_synonym iob_s = "8 word list list"

text \<open>
  The trace lists, in order, the calls that leave \<open>ipv6_forward\<close>: to the 6LoWPAN send
  routines, to the buffer pool and to the two forwarding paths, each with the argument
  that matters here.
\<close>

datatype event =
    SIXLOWPAN_TCP_SEND nat
  | SIXLOWPAN_UDP_SEND nat
  | IOB_TRYALLOC
  | IOB_TRYCOPYIN nat
  | IOB_FREE_CHAIN "iob_s option"
  | TCP_IPV6_FORWARD "iob_s option"
  | IPV6_DEV_FORWARD "iob_s option"

text \<open>
  The state the file reads and writes: \<open>dev->d_len\<close> of the receiving device (a
  \<open>uint16_t\<close>), the global statistics, the buffer pool (free buffers, and buffers
  allocated and not yet freed), and the trace.
\<close>

record fwd_state =
  d_len :: "16 word"
  g_netstats :: netstats
  iob_navail :: nat
  iob_outstanding :: int
  calls :: "event list"

text \<open>
  What the rest of the stack provides: the receiving device \<open>dev\<close> (devices are numbered),
  the link type of every device, the address resolver \<open>netdev_findby_ipv6addr\<close> (called
  with the source address in a multi-interface build only), the result of the TCP forwarding
  entry point \<open>tcp_ipv6_forward\<close>, and the bytes of \<open>dev->d_buf\<close> counted from \<open>ipv6\<close>.
\<close>

record environment =
  dev :: nat
  d_lltype :: "nat \<Rightarrow> net_lltype"
  netdev_findby_ipv6addr :: "net_ipv6addr_t option \<Rightarrow> net_ipv6addr_t \<Rightarrow> nat option"
  tcp_ipv6_forward :: "ipv6_hdr_s \<Rightarrow> iob_s option \<Rightarrow> fwd_state \<Rightarrow> int"
  d_buf :: memory

subsection \<open>Collaborators that are not part of the file\<close>

text \<open>
  Modelled from the spec: \<open>iob_tryalloc\<close> (mm/iob) is missing. Section 4.4: "attempt a
  non-blocking allocation of one buffer-chain head; if none is available, fail". It
  returns at once, with an empty chain of one buffer when the pool has a free buffer and
  with the null chain otherwise.
\<close>

definition iob_tryalloc :: "fwd_state \<Rightarrow> iob_s option \<times> fwd_state" where
  "iob_tryalloc s =
     (let s' = s\<lparr>calls := calls s @ [IOB_TRYALLOC]\<rparr>
      in if iob_navail s = 0 then (None, s')
         else (Some [[]], s'\<lparr>iob_navail := iob_navail s - 1,
                              iob_outstanding := iob_outstanding s + 1\<rparr>))"

text \<open>
  Modelled from the spec: \<open>iob_trycopyin\<close> (mm/iob) is missing. Section 4.4: "copy the
  payload bytes into the chain non-blockingly; if mid-copy the chain runs out of capacity,
  fail with BufferExhausted and the caller must release the partially-filled chain". The
  head takes the first \<open>CONFIG_IOB_BUFSIZE\<close> bytes; \<open>iob_fill\<close> links one more buffer
  for each further piece while the pool has free buffers (its last argument), and returns
  the buffers it linked and the number of bytes it could not place.
\<close>

fun iob_fill :: "nat \<Rightarrow> memory \<Rightarrow> nat \<Rightarrow> nat \<Rightarrow> nat \<Rightarrow> iob_s \<times> nat" where
  "iob_fill bs m src len 0 = ([], len)"
| "iob_fill bs m src len (Suc n) =
     (if len = 0 then ([], 0)
      else (let k = min len bs;
                r = iob_fill bs m (src + k) (len - k) n
            in (map m [src ..< src + k] # fst r, snd r)))"

text \<open>
  Modelled from the spec: \<open>iob_trycopyin\<close> itself, for the call of line 402 (a freshly
  allocated head, offset 0). It returns at once: \<open>OK\<close> when every byte found a place,
  \<open>-ENOMEM\<close> when the pool ran out, and in both cases the buffers linked so far stay on
  the chain of the caller.
\<close>

definition iob_trycopyin ::
  "config \<Rightarrow> iob_s \<Rightarrow> memory \<Rightarrow> nat \<Rightarrow> nat \<Rightarrow> fwd_state \<Rightarrow> int \<times> iob_s \<times> fwd_state" where
  "iob_trycopyin cfg iob m src len s =
     (let bs = CONFIG_IOB_BUFSIZE cfg;
          k = min len bs;
          r = iob_fill bs m (src + k) (len - k) (iob_navail s);
          n = length (fst r);
          s' = s\<lparr>iob_navail := iob_navail s - n,
                 iob_outstanding := iob_outstanding s + int n,
                 calls := calls s @ [IOB_TRYCOPYIN len]\<rparr>
      in (if snd r = 0 then OK else - ENOMEM, map m [src ..< src + k] # tl iob @ fst r, s'))"

text \<open>
  Modelled from the spec: \<open>iob_free_chain\<close> (mm/iob) is missing. Section 6: "a
  chain-release operation safe to call on a null/empty chain". Every buffer of the chain
  goes back to the pool.
\<close>

definition iob_free_chain :: "iob_s option \<Rightarrow> fwd_state \<Rightarrow> fwd_state" where
  "iob_free_chain iob s =
     (let s' = s\<lparr>calls := calls s @ [IOB_FREE_CHAIN iob]\<rparr>
      in case iob of
           None \<Rightarrow> s'
         | Some c \<Rightarrow> s'\<lparr>iob_navail := iob_navail s + length c,
                         iob_outstanding := iob_outstanding s - int (length c)\<rparr>)"

text \<open>
  Modelled from the spec: \<open>tcp_ipv6_forward\<close> (net/tcp) is missing. Section 4.5: "Both
  paths are currently required to report UnsupportedForwardingPath".
\<close>

definition tcp_ipv6_forward_spec :: "ipv6_hdr_s \<Rightarrow> iob_s option \<Rightarrow> fwd_state \<Rightarrow> int" where
  "tcp_ipv6_forward_spec ipv6 iob s = - ENOSYS"

text \<open>
  Modelled from the spec: \<open>sixlowpan_tcp_send\<close> and \<open>sixlowpan_udp_send\<close>
  (net/sixlowpan) are missing. Section 4.3: payloads "are each handed to a link-specific
  transmit routine that performs its own framing". The file ignores what they return; the
  trace records that they were called, with the forwarding device.
\<close>

definition sixlowpan_tcp_send :: "nat \<Rightarrow> fwd_state \<Rightarrow> fwd_state" where
  "sixlowpan_tcp_send fwddev s = s\<lparr>calls := calls s @ [SIXLOWPAN_TCP_SEND fwddev]\<rparr>"

definition sixlowpan_udp_send :: "nat \<Rightarrow> fwd_state \<Rightarrow> fwd_state" where
  "sixlowpan_udp_send fwddev s = s\<lparr>calls := calls s @ [SIXLOWPAN_UDP_SEND fwddev]\<rparr>"

subsection \<open>Link Adaptation Hook: ipv6_packet_conversion (lines 99-145)\<close>

definition ipv6_drop_incr :: "config \<Rightarrow> fwd_state \<Rightarrow> fwd_state" where
  "ipv6_drop_incr cfg s =
     s\<lparr>g_netstats := (g_netstats s)\<lparr>ipv6_drop := stat_incr cfg (ipv6_drop (g_netstats s))\<rparr>\<rparr>"

definition ipv6_packet_conversion ::
  "config \<Rightarrow> environment \<Rightarrow> nat \<Rightarrow> ipv6_hdr_s \<Rightarrow> fwd_state \<Rightarrow> int \<times> fwd_state" where
  "ipv6_packet_conversion cfg env fwddev ipv6 s =
     (if 0 < d_len s \<and>
         (if CONFIG_NET_MULTILINK cfg then d_lltype env fwddev = NET_LL_IEEE802154 else True)
      then
        (let s1 =
           (if CONFIG_NET_TCP cfg \<and> proto ipv6 = IP_PROTO_TCP then sixlowpan_tcp_send fwddev s
            else if CONFIG_NET_UDP cfg \<and> proto ipv6 = IP_PROTO_UDP then sixlowpan_udp_send fwddev s
            else if CONFIG_NET_STATISTICS cfg then ipv6_drop_incr cfg s
            else s)
         in (OK, s1\<lparr>d_len := 0\<rparr>))
      else (- EPFNOSUPPORT, s))"

subsection \<open>Generic forwarding path: ipv6_dev_forward (lines 239-262)\<close>

definition ipv6_dev_forward :: "ipv6_hdr_s \<Rightarrow> iob_s option \<Rightarrow> fwd_state \<Rightarrow> int \<times> fwd_state" where
  "ipv6_dev_forward ipv6 iob s = (- ENOSYS, s\<lparr>calls := calls s @ [IPV6_DEV_FORWARD iob]\<rparr>)"

subsection \<open>Drop Accountant: ipv6_dropstats (lines 281-288) and the label drop\<close>

definition ipv6_dropstats :: "config \<Rightarrow> fwd_state \<Rightarrow> fwd_state" where
  "ipv6_dropstats cfg s =
     (if CONFIG_NET_STATISTICS cfg then
        s\<lparr>g_netstats :=
            \<lparr>icmpv6_drop = stat_incr cfg (icmpv6_drop (g_netstats s)),
             udp_drop = stat_incr cfg (udp_drop (g_netstats s)),
             tcp_drop = stat_incr cfg (tcp_drop (g_netstats s)),
             ipv6_drop = stat_incr cfg (ipv6_drop (g_netstats s))\<rparr>\<rparr>
      else s)"

text \<open>Lines 429-432: the label \<open>drop\<close>.\<close>

definition drop_exit :: "config \<Rightarrow> fwd_state \<Rightarrow> int \<times> fwd_state" where
  "drop_exit cfg s = (- ENOSYS, (ipv6_dropstats cfg s)\<lparr>d_len := 0\<rparr>)"

text \<open>Lines 426-427: the label \<open>errout_with_iob\<close>, which falls through to \<open>drop\<close>.\<close>

definition errout_with_iob :: "config \<Rightarrow> iob_s option \<Rightarrow> fwd_state \<Rightarrow> int \<times> fwd_state" where
  "errout_with_iob cfg iob s = drop_exit cfg (iob_free_chain iob s)"

subsection \<open>Buffer Stager (lines 380-407)\<close>

text \<open>
  Line 381: \<open>paysize = dev->d_len - hdrsize\<close>, an \<open>unsigned int\<close>. The difference of the
  promoted operands is reduced modulo \<open>2 ^ uint_bits\<close>.
\<close>

definition paysize_of :: "config \<Rightarrow> 16 word \<Rightarrow> int \<Rightarrow> nat" where
  "paysize_of cfg dlen hdrsize = nat ((uint dlen - hdrsize) mod 2 ^ uint_bits cfg)"

text \<open>
  The result is the value that decides the jump to \<open>errout_with_iob\<close> (negative: jump;
  \<open>-ENOMEM\<close> of line 393 or the result of \<open>iob_trycopyin\<close>), the chain \<open>iob\<close> and the
  new state. With no payload the block of lines 384-407 is skipped: nothing is allocated,
  \<open>iob\<close> stays null and no jump is taken.
\<close>

definition stage ::
  "config \<Rightarrow> memory \<Rightarrow> int \<Rightarrow> fwd_state \<Rightarrow> int \<times> iob_s option \<times> fwd_state" where
  "stage cfg m hdrsize s =
     (let paysize = paysize_of cfg (d_len s) hdrsize
      in if 0 < paysize then
           (case iob_tryalloc s of
              (None, s1) \<Rightarrow> (- ENOMEM, None, s1)
            | (Some iob, s1) \<Rightarrow>
                (case iob_trycopyin cfg iob m (nat hdrsize) paysize s1 of
                   (ret, iob', s2) \<Rightarrow> (ret, Some iob', s2)))
         else (OK, None, s))"

subsection \<open>Forward Dispatcher (lines 409-432)\<close>

definition call_tcp_ipv6_forward ::
  "environment \<Rightarrow> ipv6_hdr_s \<Rightarrow> iob_s option \<Rightarrow> fwd_state \<Rightarrow> int \<times> fwd_state" where
  "call_tcp_ipv6_forward env ipv6 iob s =
     (tcp_ipv6_forward env ipv6 iob s, s\<lparr>calls := calls s @ [TCP_IPV6_FORWARD iob]\<rparr>)"

text \<open>Lines 411-418: the choice of the forwarding path.\<close>

definition forward_path ::
  "environment \<Rightarrow> ipv6_hdr_s \<Rightarrow> iob_s option \<Rightarrow> fwd_state \<Rightarrow> int \<times> fwd_state" where
  "forward_path env ipv6 iob s =
     (if proto ipv6 = IP_PROTO_TCP then call_tcp_ipv6_forward env ipv6 iob s
      else ipv6_dev_forward ipv6 iob s)"

text \<open>Lines 420-427: success returns \<open>OK\<close>, failure runs into \<open>errout_with_iob\<close>.\<close>

definition dispatch ::
  "config \<Rightarrow> environment \<Rightarrow> ipv6_hdr_s \<Rightarrow> iob_s option \<Rightarrow> fwd_state \<Rightarrow> int \<times> fwd_state" where
  "dispatch cfg env ipv6 iob s =
     (case forward_path env ipv6 iob s of
        (ret, s1) \<Rightarrow>
          if 0 \<le> ret then (OK, s1\<lparr>d_len := 0\<rparr>)
          else errout_with_iob cfg iob s1)"

text \<open>The trace entry of the forwarding path chosen for a header.\<close>

definition forward_event :: "ipv6_hdr_s \<Rightarrow> iob_s option \<Rightarrow> event" where
  "forward_event ipv6 iob =
     (if proto ipv6 = IP_PROTO_TCP then TCP_IPV6_FORWARD iob else IPV6_DEV_FORWARD iob)"

subsection \<open>ipv6_forward (lines 326-484)\<close>

text \<open>Lines 362-432: the body run when the hook did not handle a cross-interface packet.\<close>

definition cross_forward ::
  "config \<Rightarrow> environment \<Rightarrow> ipv6_hdr_s \<Rightarrow> fwd_state \<Rightarrow> int \<times> fwd_state" where
  "cross_forward cfg env ipv6 s =
     (let hdrsize = ipv6_hdrsize cfg ipv6 (d_buf env)
      in if hdrsize < 0 then drop_exit cfg s
         else
           (case stage cfg (d_buf env) hdrsize s of
              (ret, iob, s1) \<Rightarrow>
                if ret < 0 then errout_with_iob cfg iob s1
                else dispatch cfg env ipv6 iob s1))"

text \<open>
  With \<open>CONFIG_NETDEV_MULTINIC\<close> the file builds only when \<open>CONFIG_NET_6LOWPAN\<close> is
  defined too (the macro of line 147 is empty, so line 359 would read \<open>ret = ;\<close>), so
  the cross-interface branch always calls the hook of lines 99-145. The same-interface
  block of lines 438-476 calls it when \<open>CONFIG_NET_6LOWPAN\<close> is defined and returns
  \<open>-ENOSYS\<close> otherwise. In a single-interface build the \<open>if\<close> of line 355 is absent
  and that block always runs.
\<close>

definition ipv6_forward ::
  "config \<Rightarrow> environment \<Rightarrow> ipv6_hdr_s \<Rightarrow> fwd_state \<Rightarrow> int \<times> fwd_state" where
  "ipv6_forward cfg env ipv6 s =
     (case netdev_findby_ipv6addr env
             (if CONFIG_NETDEV_MULTINIC cfg then Some (srcipaddr ipv6) else None)
             (destipaddr ipv6) of
        None \<Rightarrow> (- ENETUNREACH, s)
      | Some fwddev \<Rightarrow>
          if CONFIG_NETDEV_MULTINIC cfg \<and> fwddev \<noteq> dev env then
            (case ipv6_packet_conversion cfg env fwddev ipv6 s of
               (ret, s1) \<Rightarrow>
                 if ret < 0 then cross_forward cfg env ipv6 s1 else (OK, s1))
          else if CONFIG_NET_6LOWPAN cfg then
            (case ipv6_packet_conversion cfg env (dev env) ipv6 s of
               (ret, s1) \<Rightarrow>
                 if ret < 0 then (- ENOSYS, s1) else (OK, s1))
          else (- ENOSYS, s))"

subsection \<open>Auxiliary notions and example inputs\<close>

text \<open>The number of buffers of a chain; the null chain has none.\<close>

definition chain_len :: "iob_s option \<Rightarrow> nat" where
  "chain_len iob = (case iob of None \<Rightarrow> 0 | Some c \<Rightarrow> length c)"

text \<open>What a run through the drop exit leaves behind, relative to the state before staging.\<close>

definition dropped :: "config \<Rightarrow> fwd_state \<Rightarrow> int \<times> fwd_state \<Rightarrow> bool" where
  "dropped cfg s r =
     (fst r = - ENOSYS \<and> d_len (snd r) = 0 \<and>
      g_netstats (snd r) = g_netstats (ipv6_dropstats cfg s) \<and>
      iob_outstanding (snd r) = iob_outstanding s \<and>
      iob_navail (snd r) = iob_navail s)"

text \<open>
  The destination resolves, in a multi-interface build, to an interface other than the
  receiving one (lines 339-355).
\<close>

definition crosses :: "config \<Rightarrow> environment \<Rightarrow> ipv6_hdr_s \<Rightarrow> bool" where
  "crosses cfg env ipv6 =
     (case netdev_findby_ipv6addr env
             (if CONFIG_NETDEV_MULTINIC cfg then Some (srcipaddr ipv6) else None)
             (destipaddr ipv6) of
        None \<Rightarrow> False
      | Some fwddev \<Rightarrow> CONFIG_NETDEV_MULTINIC cfg \<and> fwddev \<noteq> dev env)"

text \<open>
  A 32-bit build with every feature enabled and two or more interfaces, and the same build
  with a single interface.
\<close>

definition example_cfg :: config where
  "example_cfg =
     \<lparr>CONFIG_NET_6LOWPAN = True, CONFIG_NET_MULTILINK = True, CONFIG_NET_TCP = True,
      CONFIG_NET_UDP = True, CONFIG_NET_ICMPv6 = True, CONFIG_NET_STATISTICS = True,
      CONFIG_NETDEV_MULTINIC = True, sizeof_uintptr = 4, uint_bits = 32, stats_bits = 16,
      CONFIG_IOB_BUFSIZE = 196\<rparr>"

definition single_cfg :: config where
  "single_cfg = example_cfg\<lparr>CONFIG_NETDEV_MULTINIC := False\<rparr>"

text \<open>
  A receive buffer whose byte 52 (offset 12 of a TCP header that starts right after the
  40-byte IPv6 header) is \<open>0x50\<close>, a TCP header of five words, and whose byte 172 is
  \<open>0xF0\<close>; every other byte is zero.
\<close>

definition example_frame :: memory where
  "example_frame = (\<lambda>i. if i = 52 then 0x50 else if i = 172 then 0xF0 else 0)"

definition addr :: "16 word \<Rightarrow> net_ipv6addr_t" where
  "addr n = [0xfe80, 0, 0, 0, 0, 0, 0, n]"

definition example_hdr :: "8 word \<Rightarrow> net_ipv6addr_t \<Rightarrow> ipv6_hdr_s" where
  "example_hdr p dst = \<lparr>proto = p, srcipaddr = addr 9, destipaddr = dst\<rparr>"

text \<open>
  Three devices: 0 (Ethernet, the receiving device), 1 (IEEE 802.15.4) and 2 (Ethernet),
  serving the addresses \<open>addr 0\<close>, \<open>addr 1\<close> and \<open>addr 2\<close>; no other address is
  routable.
\<close>

definition example_env :: environment where
  "example_env =
     \<lparr>dev = 0,
      d_lltype = (\<lambda>d. if d = 1 then NET_LL_IEEE802154 else NET_LL_ETHERNET),
      netdev_findby_ipv6addr =
        (\<lambda>src dst. if dst = addr 0 then Some 0 else if dst = addr 1 then Some 1
                    else if dst = addr 2 then Some 2 else None),
      tcp_ipv6_forward = tcp_ipv6_forward_spec,
      d_buf = example_frame\<rparr>"

definition example_state :: "nat \<Rightarrow> nat \<Rightarrow> fwd_state" where
  "example_state len navail =
     \<lparr>d_len = of_nat len,
      g_netstats = \<lparr>icmpv6_drop = 0, udp_drop = 0, tcp_drop = 0, ipv6_drop = 7\<rparr>,
      iob_navail = navail, iob_outstanding = 0, calls = []\<rparr>"

section \<open>Properties\<close>

subsection \<open>Shared facts\<close>

lemma tcpsize_of_eq: "tcpsize_of b = 4 * (unat b div 16)"
proof -
  have lt: "unat b < 256"
    using unsigned_less [of b] by simp
  then have b: "unat b div 16 < 16"
    by simp
  have u: "unat (ucast b :: 16 word) = unat b"
    using lt by (simp add: unsigned_ucast_eq take_bit_nat_eq_self)
  have d: "unat (drop_bit 4 (ucast b :: 16 word)) = unat b div 16"
    by (simp only: unat_drop_bit_eq u) (simp add: drop_bit_eq_div)
  have "unat (push_bit 2 (drop_bit 4 (ucast b :: 16 word)))
        = take_bit LENGTH(16) (push_bit 2 (unat b div 16))"
    by (simp only: unsigned_push_bit_eq d)
  also have "\<dots> = unat b div 16 * 4"
    using b by (simp add: push_bit_eq_mult take_bit_nat_eq_self)
  finally show ?thesis
    by (simp add: tcpsize_of_def)
qed

lemma ipv6_hdrsize_tcp:
  "CONFIG_NET_TCP cfg \<Longrightarrow> proto ipv6 = IP_PROTO_TCP \<Longrightarrow>
   ipv6_hdrsize cfg ipv6 m =
     int (IPv6_HDRLEN + 4 * (unat (m (IPv6_HDRLEN * sizeof_uintptr cfg + tcpoffset_off)) div 16))"
  by (simp add: ipv6_hdrsize_def tcp_hdr_offset_def tcpsize_of_eq Let_def)

lemma ipv6_hdrsize_udp:
  "CONFIG_NET_UDP cfg \<Longrightarrow> proto ipv6 = IP_PROTO_UDP \<Longrightarrow>
   ipv6_hdrsize cfg ipv6 m = int (IPv6_HDRLEN + UDP_HDRLEN)"
  by (simp add: ipv6_hdrsize_def IP_PROTO_UDP_def IP_PROTO_TCP_def)

lemma ipv6_hdrsize_icmpv6:
  "CONFIG_NET_ICMPv6 cfg \<Longrightarrow> proto ipv6 = IP_PROTO_ICMP6 \<Longrightarrow>
   ipv6_hdrsize cfg ipv6 m = int (IPv6_HDRLEN + ICMPv6_HDRLEN)"
  by (simp add: ipv6_hdrsize_def IP_PROTO_UDP_def IP_PROTO_TCP_def IP_PROTO_ICMP6_def)

lemma ipv6_hdrsize_other:
  "proto ipv6 \<noteq> IP_PROTO_TCP \<Longrightarrow> proto ipv6 \<noteq> IP_PROTO_UDP \<Longrightarrow>
   proto ipv6 \<noteq> IP_PROTO_ICMP6 \<Longrightarrow> ipv6_hdrsize cfg ipv6 m = - EPROTONOSUPPORT"
  by (simp add: ipv6_hdrsize_def)

lemma ipv6_hdrsize_cases:
  "ipv6_hdrsize cfg ipv6 m = - EPROTONOSUPPORT \<or>
   (40 \<le> ipv6_hdrsize cfg ipv6 m \<and> ipv6_hdrsize cfg ipv6 m \<le> 100)"
proof -
  have "unat b < 256" for b :: "8 word"
    using unsigned_less [of b] by simp
  then have "unat b div 16 < 16" for b :: "8 word"
    by (simp add: less_mult_imp_div_less)
  then have "unat b div 16 \<le> 15" for b :: "8 word"
    by (simp add: less_Suc_eq_le [symmetric])
  then have "4 * (unat b div 16) \<le> 60" for b :: "8 word"
    using mult_le_mono2 [of "unat b div 16" 15 4] by simp
  then show ?thesis
    by (auto simp add: ipv6_hdrsize_def tcpsize_of_eq Let_def IPv6_HDRLEN_def UDP_HDRLEN_def
        ICMPv6_HDRLEN_def)
qed

lemma iob_fill_length: "length (fst (iob_fill bs m src len n)) \<le> n"
  by (induction n arbitrary: src len) (simp_all add: Let_def)

lemma errout_with_iob_simps:
  "fst (errout_with_iob cfg iob s) = - ENOSYS"
  "d_len (snd (errout_with_iob cfg iob s)) = 0"
  "g_netstats (snd (errout_with_iob cfg iob s)) = g_netstats (ipv6_dropstats cfg s)"
  "iob_outstanding (snd (errout_with_iob cfg iob s)) =
     iob_outstanding s - (case iob of None \<Rightarrow> 0 | Some c \<Rightarrow> int (length c))"
  "iob_navail (snd (errout_with_iob cfg iob s)) =
     iob_navail s + (case iob of None \<Rightarrow> 0 | Some c \<Rightarrow> length c)"
  "calls (snd (errout_with_iob cfg iob s)) = calls s @ [IOB_FREE_CHAIN iob]"
  by (simp_all add: errout_with_iob_def drop_exit_def iob_free_chain_def ipv6_dropstats_def
      Let_def split: option.split)

lemma drop_exit_simps:
  "fst (drop_exit cfg s) = - ENOSYS"
  "d_len (snd (drop_exit cfg s)) = 0"
  "g_netstats (snd (drop_exit cfg s)) = g_netstats (ipv6_dropstats cfg s)"
  "iob_outstanding (snd (drop_exit cfg s)) = iob_outstanding s"
  "iob_navail (snd (drop_exit cfg s)) = iob_navail s"
  "calls (snd (drop_exit cfg s)) = calls s"
  by (simp_all add: drop_exit_def ipv6_dropstats_def)

lemma iob_tryalloc_cases:
  "iob_tryalloc s = (None, s\<lparr>calls := calls s @ [IOB_TRYALLOC]\<rparr>) \<and> iob_navail s = 0 \<or>
   iob_tryalloc s = (Some [[]], s\<lparr>calls := calls s @ [IOB_TRYALLOC],
        iob_navail := iob_navail s - 1, iob_outstanding := iob_outstanding s + 1\<rparr>) \<and>
     0 < iob_navail s"
  by (simp add: iob_tryalloc_def Let_def)

lemma iob_trycopyin_frame:
  assumes "iob_trycopyin cfg iob m src len s = (ret, iob', s')"
  shows "d_len s' = d_len s" and "g_netstats s' = g_netstats s"
    and "calls s' = calls s @ [IOB_TRYCOPYIN len]"
    and "iob_outstanding s' - int (length iob') = iob_outstanding s - int (Suc (length (tl iob)))"
    and "iob_navail s' + length iob' = iob_navail s + Suc (length (tl iob))"
    and "ret = OK \<or> ret = - ENOMEM"
proof -
  define r where "r = iob_fill (CONFIG_IOB_BUFSIZE cfg) m
      (src + min len (CONFIG_IOB_BUFSIZE cfg)) (len - min len (CONFIG_IOB_BUFSIZE cfg)) (iob_navail s)"
  have n: "length (fst r) \<le> iob_navail s"
    unfolding r_def by (rule iob_fill_length)
  have s': "s' = s\<lparr>iob_navail := iob_navail s - length (fst r),
                 iob_outstanding := iob_outstanding s + int (length (fst r)),
                 calls := calls s @ [IOB_TRYCOPYIN len]\<rparr>"
    and iob': "iob' = map m [src ..< src + min len (CONFIG_IOB_BUFSIZE cfg)] # tl iob @ fst r"
    and ret: "ret = (if snd r = 0 then OK else - ENOMEM)"
    using assms by (simp_all add: iob_trycopyin_def Let_def r_def)
  show "d_len s' = d_len s" "g_netstats s' = g_netstats s"
    "calls s' = calls s @ [IOB_TRYCOPYIN len]"
    by (simp_all add: s')
  show "iob_outstanding s' - int (length iob') = iob_outstanding s - int (Suc (length (tl iob)))"
    by (simp add: s' iob')
  show "iob_navail s' + length iob' = iob_navail s + Suc (length (tl iob))"
    using n by (simp add: s' iob')
  show "ret = OK \<or> ret = - ENOMEM"
    by (simp add: ret)
qed

lemma stage_frame:
  assumes "stage cfg m hdrsize s = (ret, iob, s1)"
  shows "d_len s1 = d_len s" and "g_netstats s1 = g_netstats s"
    and "iob_outstanding s1 = iob_outstanding s + int (chain_len iob)"
    and "iob_navail s1 + chain_len iob = iob_navail s"
proof -
  let ?p = "paysize_of cfg (d_len s) hdrsize"
  consider (empty) "?p = 0" | (noalloc) "0 < ?p" "iob_navail s = 0"
    | (alloc) "0 < ?p" "0 < iob_navail s"
    by auto
  then have "d_len s1 = d_len s \<and> g_netstats s1 = g_netstats s \<and>
      iob_outstanding s1 = iob_outstanding s + int (chain_len iob) \<and>
      iob_navail s1 + chain_len iob = iob_navail s"
  proof cases
    case empty
    then show ?thesis
      using assms by (auto simp add: stage_def chain_len_def)
  next
    case noalloc
    then show ?thesis
      using assms by (auto simp add: stage_def iob_tryalloc_def chain_len_def Let_def)
  next
    case alloc
    let ?s0 = "s\<lparr>calls := calls s @ [IOB_TRYALLOC],
        iob_navail := iob_navail s - 1, iob_outstanding := iob_outstanding s + 1\<rparr>"
    obtain r c s2 where c: "iob_trycopyin cfg [[]] m (nat hdrsize) ?p ?s0 = (r, c, s2)"
      by (cases "iob_trycopyin cfg [[]] m (nat hdrsize) ?p ?s0") auto
    have st: "stage cfg m hdrsize s = (r, Some c, s2)"
      using alloc c by (simp add: stage_def iob_tryalloc_def Let_def)
    then have eq: "ret = r" "iob = Some c" "s1 = s2"
      using assms by simp_all
    show ?thesis
      using iob_trycopyin_frame [OF c] alloc by (simp add: eq chain_len_def)
  qed
  then show "d_len s1 = d_len s" and "g_netstats s1 = g_netstats s"
    and "iob_outstanding s1 = iob_outstanding s + int (chain_len iob)"
    and "iob_navail s1 + chain_len iob = iob_navail s"
    by simp_all
qed
lemma ipv6_packet_conversion_neg:
  "fst (ipv6_packet_conversion cfg env fwddev ipv6 s) < 0 \<Longrightarrow>
   ipv6_packet_conversion cfg env fwddev ipv6 s = (- EPFNOSUPPORT, s)"
  by (simp add: ipv6_packet_conversion_def Let_def OK_def split: if_splits)

lemma ipv6_packet_conversion_not_applicable:
  "d_len s = 0 \<or> (CONFIG_NET_MULTILINK cfg \<and> d_lltype env fwddev \<noteq> NET_LL_IEEE802154) \<Longrightarrow>
   ipv6_packet_conversion cfg env fwddev ipv6 s = (- EPFNOSUPPORT, s)"
  by (auto simp add: ipv6_packet_conversion_def)

lemma ipv6_dropstats_cong:
  "g_netstats s1 = g_netstats s \<Longrightarrow>
   g_netstats (ipv6_dropstats cfg s1) = g_netstats (ipv6_dropstats cfg s)"
  by (simp add: ipv6_dropstats_def)

lemma forward_path_frame:
  "snd (forward_path env ipv6 iob s) = s\<lparr>calls := calls s @ [forward_event ipv6 iob]\<rparr>"
  by (simp add: forward_path_def forward_event_def call_tcp_ipv6_forward_def ipv6_dev_forward_def)

lemma forward_path_dev:
  "proto ipv6 \<noteq> IP_PROTO_TCP \<Longrightarrow> fst (forward_path env ipv6 iob s) = - ENOSYS"
  by (simp add: forward_path_def ipv6_dev_forward_def)

lemma dispatch_accept:
  "0 \<le> fst (forward_path env ipv6 iob s) \<Longrightarrow>
   dispatch cfg env ipv6 iob s = (OK, s\<lparr>calls := calls s @ [forward_event ipv6 iob], d_len := 0\<rparr>)"
  using forward_path_frame [of env ipv6 iob s]
  by (cases "forward_path env ipv6 iob s") (simp add: dispatch_def)

lemma dispatch_fail:
  "fst (forward_path env ipv6 iob s) < 0 \<Longrightarrow>
   dispatch cfg env ipv6 iob s =
     errout_with_iob cfg iob (s\<lparr>calls := calls s @ [forward_event ipv6 iob]\<rparr>)"
  using forward_path_frame [of env ipv6 iob s]
  by (cases "forward_path env ipv6 iob s") (simp add: dispatch_def)

lemma drop_exit_dropped: "dropped cfg s (drop_exit cfg s)"
  by (simp add: dropped_def drop_exit_simps)

lemma errout_after_stage_dropped:
  assumes "stage cfg m hdrsize s = (ret, iob, s1)"
    and "g_netstats s2 = g_netstats s1" "iob_outstanding s2 = iob_outstanding s1"
    "iob_navail s2 = iob_navail s1"
  shows "dropped cfg s (errout_with_iob cfg iob s2)"
  using stage_frame [OF assms(1)] assms(2-4) ipv6_dropstats_cong [of s2 s cfg]
  by (simp add: dropped_def errout_with_iob_simps chain_len_def split: option.split)

lemma cross_forward_cases:
  "dropped cfg s (cross_forward cfg env ipv6 s) \<or>
   (fst (cross_forward cfg env ipv6 s) = OK \<and> d_len (snd (cross_forward cfg env ipv6 s)) = 0)"
proof (cases "ipv6_hdrsize cfg ipv6 (d_buf env) < 0")
  case True
  then show ?thesis
    by (simp add: cross_forward_def drop_exit_dropped)
next
  case False
  obtain ret iob s1 where st: "stage cfg (d_buf env) (ipv6_hdrsize cfg ipv6 (d_buf env)) s = (ret, iob, s1)"
    by (cases "stage cfg (d_buf env) (ipv6_hdrsize cfg ipv6 (d_buf env)) s") auto
  show ?thesis
  proof (cases "ret < 0")
    case True
    then have "cross_forward cfg env ipv6 s = errout_with_iob cfg iob s1"
      using False st by (simp add: cross_forward_def)
    then show ?thesis
      using errout_after_stage_dropped [OF st, of s1] by simp
  next
    case nonneg: False
    then have cf: "cross_forward cfg env ipv6 s = dispatch cfg env ipv6 iob s1"
      using False st by (simp add: cross_forward_def)
    show ?thesis
    proof (cases "0 \<le> fst (forward_path env ipv6 iob s1)")
      case True
      then show ?thesis
        by (simp add: cf dispatch_accept)
    next
      case False
      then have "dispatch cfg env ipv6 iob s1 =
          errout_with_iob cfg iob (s1\<lparr>calls := calls s1 @ [forward_event ipv6 iob]\<rparr>)"
        by (simp add: dispatch_fail)
      then show ?thesis
        using errout_after_stage_dropped [OF st, of "s1\<lparr>calls := calls s1 @ [forward_event ipv6 iob]\<rparr>"]
        by (simp add: cf)
    qed
  qed
qed

lemma ipv6_forward_cross:
  assumes "CONFIG_NETDEV_MULTINIC cfg"
    and "netdev_findby_ipv6addr env (Some (srcipaddr ipv6)) (destipaddr ipv6) = Some fwddev"
    and "fwddev \<noteq> dev env"
    and "fst (ipv6_packet_conversion cfg env fwddev ipv6 s) < 0"
  shows "ipv6_forward cfg env ipv6 s = cross_forward cfg env ipv6 s"
  using assms ipv6_packet_conversion_neg [OF assms(4)]
  by (simp add: ipv6_forward_def)

lemma iob_fill_zero: "iob_fill bs m src 0 n = ([], 0)"
  by (cases n) simp_all

lemma stage_empty:
  "paysize_of cfg (d_len s) h = 0 \<Longrightarrow> stage cfg m h s = (OK, None, s)"
  by (simp add: stage_def)

lemma stage_noalloc:
  "0 < paysize_of cfg (d_len s) h \<Longrightarrow> iob_navail s = 0 \<Longrightarrow>
   stage cfg m h s = (- ENOMEM, None, s\<lparr>calls := calls s @ [IOB_TRYALLOC]\<rparr>)"
  by (simp add: stage_def iob_tryalloc_def)

lemma stage_calls:
  "calls (snd (snd (stage cfg m h s))) =
     calls s @ (if 0 < paysize_of cfg (d_len s) h
                then IOB_TRYALLOC #
                     (if 0 < iob_navail s then [IOB_TRYCOPYIN (paysize_of cfg (d_len s) h)] else [])
                else [])"
  by (simp add: stage_def iob_tryalloc_def iob_trycopyin_def Let_def)


lemma paysize_exact:
  assumes "0 \<le> h" "h \<le> uint d" "16 \<le> uint_bits cfg"
  shows "paysize_of cfg d h = nat (uint d - h)"
proof -
  have "uint d < 2 ^ 16"
    using uint_bounded [of d] by simp
  also have "(2::int) ^ 16 \<le> 2 ^ uint_bits cfg"
    using assms(3) by (rule power_increasing) simp
  finally have "uint d - h < 2 ^ uint_bits cfg"
    using assms(1) by simp
  then show ?thesis
    using assms(2) by (simp add: paysize_of_def)
qed

lemma paysize_wrap:
  assumes "uint d < h" "h \<le> 2 ^ uint_bits cfg"
  shows "int (paysize_of cfg d h) = 2 ^ uint_bits cfg - (h - uint d)"
proof -
  have nn: "0 \<le> uint d"
    by simp
  have ge: "0 \<le> uint d - h + 2 ^ uint_bits cfg"
    using assms(2) nn by linarith
  have lt: "uint d - h + 2 ^ uint_bits cfg < 2 ^ uint_bits cfg"
    using assms(1) by linarith
  have "(uint d - h) mod 2 ^ uint_bits cfg = (uint d - h + 2 ^ uint_bits cfg) mod 2 ^ uint_bits cfg"
    by simp
  also have "\<dots> = uint d - h + 2 ^ uint_bits cfg"
    using ge lt by (rule mod_pos_pos_trivial)
  finally have "(uint d - h) mod 2 ^ uint_bits cfg = uint d - h + 2 ^ uint_bits cfg" .
  then show ?thesis
    using ge by (simp add: paysize_of_def)
qed

lemma hundred_le_uint_max:
  assumes "16 \<le> uint_bits cfg"
  shows "(100::int) < 2 ^ uint_bits cfg"
proof -
  have "(100::int) < 2 ^ 16" by simp
  also have "(2::int) ^ 16 \<le> 2 ^ uint_bits cfg"
    using assms by (rule power_increasing) simp
  finally show ?thesis .
qed

lemma cross_forward_hdr_fail:
  "ipv6_hdrsize cfg ipv6 (d_buf env) < 0 \<Longrightarrow> cross_forward cfg env ipv6 s = drop_exit cfg s"
  by (simp add: cross_forward_def)

lemma cross_forward_stage_fail:
  assumes "0 \<le> ipv6_hdrsize cfg ipv6 (d_buf env)"
    and "stage cfg (d_buf env) (ipv6_hdrsize cfg ipv6 (d_buf env)) s = (ret, iob, s1)"
    and "ret < 0"
  shows "cross_forward cfg env ipv6 s = errout_with_iob cfg iob s1"
  using assms by (simp add: cross_forward_def)

lemma cross_forward_dispatch:
  assumes "0 \<le> ipv6_hdrsize cfg ipv6 (d_buf env)"
    and "stage cfg (d_buf env) (ipv6_hdrsize cfg ipv6 (d_buf env)) s = (ret, iob, s1)"
    and "0 \<le> ret"
  shows "cross_forward cfg env ipv6 s = dispatch cfg env ipv6 iob s1"
  using assms by (simp add: cross_forward_def)

lemma dispatch_calls:
  "calls (snd (dispatch cfg env ipv6 iob s)) =
     calls s @ forward_event ipv6 iob #
       (if 0 \<le> fst (forward_path env ipv6 iob s) then [] else [IOB_FREE_CHAIN iob])"
proof (cases "0 \<le> fst (forward_path env ipv6 iob s)")
  case True
  then show ?thesis
    by (simp add: dispatch_accept)
next
  case False
  then show ?thesis
    by (simp add: dispatch_fail errout_with_iob_simps)
qed

lemma cross_forward_calls:
  assumes "0 \<le> ipv6_hdrsize cfg ipv6 (d_buf env)"
  shows "\<exists>rest. calls (snd (cross_forward cfg env ipv6 s)) =
           calls (snd (snd (stage cfg (d_buf env) (ipv6_hdrsize cfg ipv6 (d_buf env)) s))) @ rest"
proof -
  obtain ret iob s1 where
    st: "stage cfg (d_buf env) (ipv6_hdrsize cfg ipv6 (d_buf env)) s = (ret, iob, s1)"
    by (cases "stage cfg (d_buf env) (ipv6_hdrsize cfg ipv6 (d_buf env)) s") auto
  show ?thesis
  proof (cases "ret < 0")
    case True
    then show ?thesis
      using cross_forward_stage_fail [OF assms st] by (simp add: st errout_with_iob_simps)
  next
    case False
    then have "cross_forward cfg env ipv6 s = dispatch cfg env ipv6 iob s1"
      using cross_forward_dispatch [OF assms st] by simp
    then show ?thesis
      by (simp add: st dispatch_calls)
  qed
qed


lemma ipv6_hdrsize_le:
  "0 \<le> ipv6_hdrsize cfg ipv6 m \<Longrightarrow> ipv6_hdrsize cfg ipv6 m \<le> 100"
  using ipv6_hdrsize_cases [of cfg ipv6 m] by (auto simp add: EPROTONOSUPPORT_def)

lemma paysize_truncated:
  assumes "0 \<le> h" "h \<le> 100" "uint d < h" "16 \<le> uint_bits cfg"
  shows "int (paysize_of cfg d h) = 2 ^ uint_bits cfg - (h - uint d)"
    and "2 ^ uint_bits cfg - 100 \<le> int (paysize_of cfg d h)"
    and "0 < paysize_of cfg d h"
proof -
  have big: "(100::int) < 2 ^ uint_bits cfg"
    using assms(4) by (rule hundred_le_uint_max)
  then have "h \<le> 2 ^ uint_bits cfg"
    using assms(2) by linarith
  then show eq: "int (paysize_of cfg d h) = 2 ^ uint_bits cfg - (h - uint d)"
    using assms(3) by (intro paysize_wrap)
  have nn: "0 \<le> uint d"
    by simp
  show "2 ^ uint_bits cfg - 100 \<le> int (paysize_of cfg d h)"
    using eq assms(2) nn by linarith
  have "0 < int (paysize_of cfg d h)"
    using eq assms(2) nn big by linarith
  then show "0 < paysize_of cfg d h"
    by simp
qed

lemma iob_fill_concat:
  "snd (iob_fill bs m src len n) = 0 \<Longrightarrow>
   concat (fst (iob_fill bs m src len n)) = map m [src ..< src + len]"
proof (induction n arbitrary: src len)
  case 0
  then show ?case by simp
next
  case (Suc n)
  show ?case
  proof (cases "len = 0")
    case True
    then show ?thesis by simp
  next
    case False
    let ?k = "min len bs"
    have rest: "snd (iob_fill bs m (src + ?k) (len - ?k) n) = 0"
      using Suc.prems False by (simp add: Let_def)
    have split: "[src ..< src + len] = [src ..< src + ?k] @ [src + ?k ..< src + ?k + (len - ?k)]"
      using upt_add_eq_append [of src "src + ?k" "len - ?k"] by simp
    show ?thesis
      using False Suc.IH [OF rest] by (simp add: Let_def split)
  qed
qed

lemma iob_trycopyin_concat:
  assumes "iob_trycopyin cfg [[]] m src len s = (ret, c, s')" and "0 \<le> ret"
  shows "concat c = map m [src ..< src + len]"
proof -
  let ?k = "min len (CONFIG_IOB_BUFSIZE cfg)"
  let ?r = "iob_fill (CONFIG_IOB_BUFSIZE cfg) m (src + ?k) (len - ?k) (iob_navail s)"
  have ret: "ret = (if snd ?r = 0 then OK else - ENOMEM)"
    and c: "c = map m [src ..< src + ?k] # fst ?r"
    using assms(1) by (simp_all add: iob_trycopyin_def Let_def)
  have "snd ?r = 0"
    using assms(2) ret by (simp add: ENOMEM_def split: if_splits)
  then have "concat (fst ?r) = map m [src + ?k ..< src + ?k + (len - ?k)]"
    by (rule iob_fill_concat)
  moreover have "[src ..< src + len] = [src ..< src + ?k] @ [src + ?k ..< src + ?k + (len - ?k)]"
    using upt_add_eq_append [of src "src + ?k" "len - ?k"] by simp
  ultimately show ?thesis
    by (simp add: c)
qed

lemmas example_defs =
  example_cfg_def single_cfg_def example_env_def example_state_def example_hdr_def
  example_frame_def addr_def

lemmas const_defs =
  IP_PROTO_TCP_def IP_PROTO_UDP_def IP_PROTO_ICMP6_def IPv6_HDRLEN_def UDP_HDRLEN_def
  ICMPv6_HDRLEN_def tcpoffset_off_def OK_def ENOMEM_def ENOSYS_def EPROTONOSUPPORT_def
  EPFNOSUPPORT_def ENETUNREACH_def


subsection \<open>Header Classifier\<close>

text \<open>
  C1 (fails on the code). In the example build (\<open>sizeof(uintptr_t) = 4\<close>) the TCP header
  of the example frame starts right after the IPv6 header and its header-length field, at
  byte \<open>IPv6_HDRLEN + 12 = 52\<close>, encodes five words, so the combined header length is
  \<open>40 + 4 * 5 = 60\<close>. \<open>ipv6_hdrsize\<close> reads the field at byte \<open>4 * 40 + 12 = 172\<close>
  instead, finds fifteen words there and returns 100.
\<close>

theorem C1_tcp_header_length_read_at_scaled_offset:
  "example_frame (IPv6_HDRLEN + tcpoffset_off) = 0x50 \<and>
   ipv6_hdrsize example_cfg (example_hdr IP_PROTO_TCP (addr 2)) example_frame = 100 \<and>
   ipv6_hdrsize example_cfg (example_hdr IP_PROTO_TCP (addr 2)) example_frame
     \<noteq> int (IPv6_HDRLEN + 4 * 5)"
  by (simp add: ipv6_hdrsize_def example_cfg_def example_hdr_def example_frame_def
      tcp_hdr_offset_def tcpoffset_off_def IPv6_HDRLEN_def tcpsize_of_eq IP_PROTO_TCP_def)

subsection \<open>Exits without a route or on the receiving interface\<close>

text \<open>
  C3 (as stated, fails). A UDP packet for \<open>addr 5\<close>, which no device of the example
  serves, arrives with \<open>d_len = 100\<close>: \<open>ipv6_forward\<close> returns \<open>-ENETUNREACH\<close> and
  \<open>d_len\<close> is still 100, not zero.
\<close>

theorem C3_counterexample:
  "netdev_findby_ipv6addr example_env (Some (srcipaddr (example_hdr IP_PROTO_UDP (addr 5))))
     (destipaddr (example_hdr IP_PROTO_UDP (addr 5))) = None \<and>
   fst (ipv6_forward example_cfg example_env (example_hdr IP_PROTO_UDP (addr 5))
          (example_state 100 4)) = - ENETUNREACH \<and>
   d_len (snd (ipv6_forward example_cfg example_env (example_hdr IP_PROTO_UDP (addr 5))
          (example_state 100 4))) = 100 \<and>
   d_len (snd (ipv6_forward example_cfg example_env (example_hdr IP_PROTO_UDP (addr 5))
          (example_state 100 4))) \<noteq> 0"
  by (simp add: ipv6_forward_def example_defs)

text \<open>
  C3 (amended). When the resolver finds no interface for the destination (and, in a
  multi-interface build, the source), \<open>ipv6_forward\<close> returns \<open>-ENETUNREACH\<close> and leaves
  the whole state as it was: \<open>d_len\<close> keeps its value, no counter moves, and no buffer
  is allocated.
\<close>

theorem C3_no_route_returns_unchanged:
  assumes "netdev_findby_ipv6addr env
             (if CONFIG_NETDEV_MULTINIC cfg then Some (srcipaddr ipv6) else None)
             (destipaddr ipv6) = None"
  shows "ipv6_forward cfg env ipv6 s = (- ENETUNREACH, s)"
  using assms by (simp add: ipv6_forward_def)

theorem C3_no_route_returns_unchanged_witness:
  "netdev_findby_ipv6addr example_env
     (if CONFIG_NETDEV_MULTINIC example_cfg
      then Some (srcipaddr (example_hdr IP_PROTO_UDP (addr 5))) else None)
     (destipaddr (example_hdr IP_PROTO_UDP (addr 5))) = None \<and>
   ipv6_forward example_cfg example_env (example_hdr IP_PROTO_UDP (addr 5)) (example_state 100 4)
     = (- ENETUNREACH, example_state 100 4)"
proof -
  have h: "netdev_findby_ipv6addr example_env
     (if CONFIG_NETDEV_MULTINIC example_cfg
      then Some (srcipaddr (example_hdr IP_PROTO_UDP (addr 5))) else None)
     (destipaddr (example_hdr IP_PROTO_UDP (addr 5))) = None"
    by (simp add: example_defs)
  show ?thesis
    using h C3_no_route_returns_unchanged [OF h, of "example_state 100 4"] by simp
qed

text \<open>
  C7 (as stated, fails). Single-interface build, UDP packet for \<open>addr 0\<close>, served by the
  only interface, an Ethernet device that needs no transcoding: \<open>ipv6_forward\<close> returns
  \<open>-ENOSYS\<close>, not success.
\<close>

theorem C7_counterexample:
  "\<not> CONFIG_NETDEV_MULTINIC single_cfg \<and>
   netdev_findby_ipv6addr example_env None (destipaddr (example_hdr IP_PROTO_UDP (addr 0)))
     = Some (dev example_env) \<and>
   d_lltype example_env (dev example_env) \<noteq> NET_LL_IEEE802154 \<and>
   fst (ipv6_forward single_cfg example_env (example_hdr IP_PROTO_UDP (addr 0))
          (example_state 100 4)) = - ENOSYS \<and>
   fst (ipv6_forward single_cfg example_env (example_hdr IP_PROTO_UDP (addr 0))
          (example_state 100 4)) \<noteq> OK"
  by (simp add: ipv6_forward_def ipv6_packet_conversion_def example_defs const_defs)

text \<open>
  C7 (amended). In a single-interface build, for every packet (a datagram-protocol packet
  in particular) whose destination resolves to an interface and whose link needs no
  transcoding (6LoWPAN is not built in, or the build has several link types and the
  interface is not IEEE 802.15.4), \<open>ipv6_forward\<close> returns \<open>-ENOSYS\<close> and leaves the
  state as it was: \<open>d_len\<close> unchanged, no drop counter incremented.
\<close>

theorem C7_single_interface_no_transcoding:
  assumes "\<not> CONFIG_NETDEV_MULTINIC cfg"
    and "netdev_findby_ipv6addr env None (destipaddr ipv6) = Some fwddev"
    and "\<not> CONFIG_NET_6LOWPAN cfg \<or>
         (CONFIG_NET_MULTILINK cfg \<and> d_lltype env (dev env) \<noteq> NET_LL_IEEE802154)"
  shows "ipv6_forward cfg env ipv6 s = (- ENOSYS, s)"
  using assms ipv6_packet_conversion_not_applicable [of s cfg env "dev env" ipv6]
  by (auto simp add: ipv6_forward_def const_defs)

theorem C7_single_interface_no_transcoding_witness:
  "\<not> CONFIG_NETDEV_MULTINIC single_cfg \<and>
   netdev_findby_ipv6addr example_env None (destipaddr (example_hdr IP_PROTO_UDP (addr 0)))
     = Some 0 \<and>
   CONFIG_NET_MULTILINK single_cfg \<and>
   d_lltype example_env (dev example_env) \<noteq> NET_LL_IEEE802154 \<and>
   ipv6_forward single_cfg example_env (example_hdr IP_PROTO_UDP (addr 0)) (example_state 100 4)
     = (- ENOSYS, example_state 100 4)"
proof -
  have h1: "\<not> CONFIG_NETDEV_MULTINIC single_cfg"
    by (simp add: example_defs)
  have h2: "netdev_findby_ipv6addr example_env None
      (destipaddr (example_hdr IP_PROTO_UDP (addr 0))) = Some 0"
    by (simp add: example_defs)
  have h3: "\<not> CONFIG_NET_6LOWPAN single_cfg \<or>
    (CONFIG_NET_MULTILINK single_cfg \<and>
     d_lltype example_env (dev example_env) \<noteq> NET_LL_IEEE802154)"
    by (simp add: example_defs)
  have h3': "CONFIG_NET_MULTILINK single_cfg"
    "d_lltype example_env (dev example_env) \<noteq> NET_LL_IEEE802154"
    by (simp_all add: example_defs)
  show ?thesis
    using h1 h2 h3' C7_single_interface_no_transcoding [OF h1 h2 h3, of "example_state 100 4"]
    by simp
qed

subsection \<open>Link Adaptation Hook\<close>



subsection \<open>Failure exits\<close>

text \<open>
  C2 (as stated, fails). Multi-interface build, UDP packet for \<open>addr 0\<close>, which the
  receiving Ethernet device itself serves, \<open>d_len = 100\<close>: the hook does not apply and
  line 467 returns \<open>-ENOSYS\<close> at once. The call fails, yet \<open>d_len\<close> is still 100 and
  no drop counter has moved.
\<close>

theorem C2_counterexample:
  "fst (ipv6_forward example_cfg example_env (example_hdr IP_PROTO_UDP (addr 0))
          (example_state 100 4)) < 0 \<and>
   d_len (snd (ipv6_forward example_cfg example_env (example_hdr IP_PROTO_UDP (addr 0))
          (example_state 100 4))) \<noteq> 0 \<and>
   g_netstats (snd (ipv6_forward example_cfg example_env (example_hdr IP_PROTO_UDP (addr 0))
          (example_state 100 4))) = g_netstats (example_state 100 4)"
  by (simp add: ipv6_forward_def ipv6_packet_conversion_def example_defs const_defs)

text \<open>
  C2 (amended). Every execution of \<open>ipv6_forward\<close> that returns a failure leaves the
  buffer pool as it found it (no chain remains allocated). If the destination resolved to
  an interface other than the receiving one, the failure went through the drop exit:
  \<open>d_len\<close> is zero and, in a build with statistics, each of the four drop counters
  (ICMPv6, UDP, TCP, IPv6) has been incremented once, modulo the counter width; a build
  without statistics has no counters to move. On the no-route exit and the same-interface
  exits the call returns at once: \<open>d_len\<close>, the counters and the trace are unchanged.
\<close>

theorem C2_failure_exits:
  assumes "fst (ipv6_forward cfg env ipv6 s) < 0"
  shows "iob_outstanding (snd (ipv6_forward cfg env ipv6 s)) = iob_outstanding s \<and>
         iob_navail (snd (ipv6_forward cfg env ipv6 s)) = iob_navail s \<and>
         (if crosses cfg env ipv6
          then d_len (snd (ipv6_forward cfg env ipv6 s)) = 0 \<and>
               g_netstats (snd (ipv6_forward cfg env ipv6 s)) =
                 (if CONFIG_NET_STATISTICS cfg
                  then \<lparr>icmpv6_drop = (icmpv6_drop (g_netstats s) + 1) mod 2 ^ stats_bits cfg,
                        udp_drop = (udp_drop (g_netstats s) + 1) mod 2 ^ stats_bits cfg,
                        tcp_drop = (tcp_drop (g_netstats s) + 1) mod 2 ^ stats_bits cfg,
                        ipv6_drop = (ipv6_drop (g_netstats s) + 1) mod 2 ^ stats_bits cfg\<rparr>
                  else g_netstats s)
          else d_len (snd (ipv6_forward cfg env ipv6 s)) = d_len s \<and>
               g_netstats (snd (ipv6_forward cfg env ipv6 s)) = g_netstats s \<and>
               calls (snd (ipv6_forward cfg env ipv6 s)) = calls s)"
proof (cases "netdev_findby_ipv6addr env
    (if CONFIG_NETDEV_MULTINIC cfg then Some (srcipaddr ipv6) else None) (destipaddr ipv6)")
  case None
  then show ?thesis
    by (simp add: ipv6_forward_def crosses_def)
next
  case (Some fwddev)
  show ?thesis
  proof (cases "CONFIG_NETDEV_MULTINIC cfg \<and> fwddev \<noteq> dev env")
    case True
    then have cr: "crosses cfg env ipv6"
      using Some by (simp add: crosses_def)
    obtain ret s1 where hook: "ipv6_packet_conversion cfg env fwddev ipv6 s = (ret, s1)"
      by (cases "ipv6_packet_conversion cfg env fwddev ipv6 s") auto
    have neg: "ret < 0"
      using assms Some True hook by (auto simp add: ipv6_forward_def OK_def split: if_splits)
    then have "fst (ipv6_packet_conversion cfg env fwddev ipv6 s) < 0"
      by (simp add: hook)
    then have eq: "ipv6_forward cfg env ipv6 s = cross_forward cfg env ipv6 s"
      using True Some by (intro ipv6_forward_cross) simp_all
    have "dropped cfg s (cross_forward cfg env ipv6 s)"
      using cross_forward_cases [of cfg s env ipv6] assms by (auto simp add: eq OK_def)
    then show ?thesis
      using cr by (simp add: eq dropped_def ipv6_dropstats_def stat_incr_def)
  next
    case False
    then have ncr: "\<not> crosses cfg env ipv6"
      using Some by (auto simp add: crosses_def)
    have "snd (ipv6_forward cfg env ipv6 s) = s"
    proof (cases "CONFIG_NET_6LOWPAN cfg")
      case True
      obtain ret s1 where hook: "ipv6_packet_conversion cfg env (dev env) ipv6 s = (ret, s1)"
        by (cases "ipv6_packet_conversion cfg env (dev env) ipv6 s") auto
      have neg: "ret < 0"
        using assms Some False True hook by (auto simp add: ipv6_forward_def OK_def split: if_splits)
      then have "s1 = s"
        using ipv6_packet_conversion_neg [of cfg env "dev env" ipv6 s] hook by simp
      then show ?thesis
        using Some False True hook neg by (auto simp add: ipv6_forward_def)
    next
      case no: False
      then show ?thesis
        using Some False by (auto simp add: ipv6_forward_def)
    qed
    then show ?thesis
      using ncr by simp
  qed
qed


theorem C2_failure_exits_witness:
  "fst (ipv6_forward example_cfg example_env (example_hdr IP_PROTO_UDP (addr 2))
          (example_state 100 0)) < 0 \<and>
   crosses example_cfg example_env (example_hdr IP_PROTO_UDP (addr 2)) \<and>
   CONFIG_NET_STATISTICS example_cfg \<and>
   g_netstats (example_state 100 0) =
     \<lparr>icmpv6_drop = 0, udp_drop = 0, tcp_drop = 0, ipv6_drop = 7\<rparr> \<and>
   g_netstats (snd (ipv6_forward example_cfg example_env (example_hdr IP_PROTO_UDP (addr 2))
          (example_state 100 0))) =
     \<lparr>icmpv6_drop = 1, udp_drop = 1, tcp_drop = 1, ipv6_drop = 8\<rparr> \<and>
   d_len (snd (ipv6_forward example_cfg example_env (example_hdr IP_PROTO_UDP (addr 2))
          (example_state 100 0))) = 0 \<and>
   iob_outstanding (snd (ipv6_forward example_cfg example_env
          (example_hdr IP_PROTO_UDP (addr 2)) (example_state 100 0))) = 0 \<and>
   iob_navail (snd (ipv6_forward example_cfg example_env
          (example_hdr IP_PROTO_UDP (addr 2)) (example_state 100 0))) = 0"
proof -
  let ?hdr = "example_hdr IP_PROTO_UDP (addr 2)"
  let ?s = "example_state 100 0"
  have cf: "ipv6_forward example_cfg example_env ?hdr ?s =
        cross_forward example_cfg example_env ?hdr ?s"
    by (simp add: ipv6_forward_def ipv6_packet_conversion_def example_defs const_defs)
  have h: "fst (ipv6_forward example_cfg example_env ?hdr ?s) < 0"
    by (simp only: cf)
      (simp add: cross_forward_def ipv6_hdrsize_def stage_def paysize_of_def
        iob_tryalloc_def errout_with_iob_def drop_exit_def example_defs const_defs)
  have c: "crosses example_cfg example_env ?hdr"
    by (simp add: crosses_def example_defs)
  have s0: "CONFIG_NET_STATISTICS example_cfg" "stats_bits example_cfg = 16"
    "g_netstats ?s = \<lparr>icmpv6_drop = 0, udp_drop = 0, tcp_drop = 0, ipv6_drop = 7\<rparr>"
    "iob_outstanding ?s = 0" "iob_navail ?s = 0"
    by (simp_all add: example_defs)
  show ?thesis
    using h c C2_failure_exits [OF h] by (simp add: s0)
qed

subsection \<open>Cross-interface forwarding\<close>

text \<open>
  C9. The destination resolves to an interface other than the receiving one and the hook
  did not handle the packet. Whatever sends the execution to the drop exit (the
  classifier fails, staging fails, or the chosen forwarding path fails), \<open>ipv6_forward\<close>
  returns \<open>-ENOSYS\<close>, never \<open>-EPROTONOSUPPORT\<close> or \<open>-ENOMEM\<close>.
\<close>

theorem C9_drop_exit_returns_enosys:
  assumes "CONFIG_NETDEV_MULTINIC cfg"
    and "netdev_findby_ipv6addr env (Some (srcipaddr ipv6)) (destipaddr ipv6) = Some fwddev"
    and "fwddev \<noteq> dev env"
    and "fst (ipv6_packet_conversion cfg env fwddev ipv6 s) < 0"
    and "ipv6_hdrsize cfg ipv6 (d_buf env) < 0 \<or>
         fst (stage cfg (d_buf env) (ipv6_hdrsize cfg ipv6 (d_buf env)) s) < 0 \<or>
         fst (forward_path env ipv6
                (fst (snd (stage cfg (d_buf env) (ipv6_hdrsize cfg ipv6 (d_buf env)) s)))
                (snd (snd (stage cfg (d_buf env) (ipv6_hdrsize cfg ipv6 (d_buf env)) s)))) < 0"
  shows "fst (ipv6_forward cfg env ipv6 s) = - ENOSYS \<and>
         fst (ipv6_forward cfg env ipv6 s) \<noteq> - EPROTONOSUPPORT \<and>
         fst (ipv6_forward cfg env ipv6 s) \<noteq> - ENOMEM"
proof -
  have eq: "ipv6_forward cfg env ipv6 s = cross_forward cfg env ipv6 s"
    using assms(1-4) by (rule ipv6_forward_cross)
  obtain ret iob s1 where
    st: "stage cfg (d_buf env) (ipv6_hdrsize cfg ipv6 (d_buf env)) s = (ret, iob, s1)"
    by (cases "stage cfg (d_buf env) (ipv6_hdrsize cfg ipv6 (d_buf env)) s") auto
  have "fst (cross_forward cfg env ipv6 s) = - ENOSYS"
  proof (cases "ipv6_hdrsize cfg ipv6 (d_buf env) < 0")
    case True
    then show ?thesis
      by (simp add: cross_forward_hdr_fail drop_exit_simps)
  next
    case False
    then have h: "0 \<le> ipv6_hdrsize cfg ipv6 (d_buf env)"
      by simp
    show ?thesis
    proof (cases "ret < 0")
      case True
      then show ?thesis
        using cross_forward_stage_fail [OF h st] by (simp add: errout_with_iob_simps)
    next
      case nonneg: False
      then have "fst (forward_path env ipv6 iob s1) < 0"
        using assms(5) False by (simp add: st)
      then show ?thesis
        using cross_forward_dispatch [OF h st] nonneg
        by (simp add: dispatch_fail errout_with_iob_simps)
    qed
  qed
  then show ?thesis
    by (simp add: eq const_defs)
qed

theorem C9_drop_exit_returns_enosys_witness:
  "CONFIG_NETDEV_MULTINIC example_cfg \<and>
   netdev_findby_ipv6addr example_env (Some (srcipaddr (example_hdr 99 (addr 2))))
     (destipaddr (example_hdr 99 (addr 2))) = Some 2 \<and>
   2 \<noteq> dev example_env \<and>
   fst (ipv6_packet_conversion example_cfg example_env 2 (example_hdr 99 (addr 2))
          (example_state 100 4)) < 0 \<and>
   ipv6_hdrsize example_cfg (example_hdr 99 (addr 2)) (d_buf example_env) = - EPROTONOSUPPORT \<and>
   fst (ipv6_forward example_cfg example_env (example_hdr 99 (addr 2)) (example_state 100 4))
     = - ENOSYS"
proof -
  have h1: "CONFIG_NETDEV_MULTINIC example_cfg"
    by (simp add: example_defs)
  have h2: "netdev_findby_ipv6addr example_env (Some (srcipaddr (example_hdr 99 (addr 2))))
     (destipaddr (example_hdr 99 (addr 2))) = Some 2"
    by (simp add: example_defs)
  have h3: "2 \<noteq> dev example_env"
    by (simp add: example_defs)
  have h4: "fst (ipv6_packet_conversion example_cfg example_env 2 (example_hdr 99 (addr 2))
          (example_state 100 4)) < 0"
    by (simp add: ipv6_packet_conversion_def example_defs const_defs)
  have h5: "ipv6_hdrsize example_cfg (example_hdr 99 (addr 2)) (d_buf example_env)
      = - EPROTONOSUPPORT"
    by (simp add: ipv6_hdrsize_def example_defs const_defs)
  have h5': "ipv6_hdrsize example_cfg (example_hdr 99 (addr 2)) (d_buf example_env) < 0"
    by (simp add: h5 const_defs)
  show ?thesis
    using h1 h2 h3 h4 h5
      C9_drop_exit_returns_enosys [OF h1 h2 h3 h4 disjI1, OF h5']
    by simp
qed

text \<open>
  C4 (fails on the code). Multi-interface build, UDP packet of 100 bytes for \<open>addr 2\<close>
  (another Ethernet device), empty buffer pool. \<open>iob_tryalloc\<close> yields no buffer and the
  staging records \<open>-ENOMEM\<close> (line 393), but the drop exit returns the constant of line
  432: \<open>ipv6_forward\<close> fails with \<open>-ENOSYS\<close>, not \<open>-ENOMEM\<close>. The number of
  outstanding buffers is the same as before the call.
\<close>

theorem C4_alloc_failure_loses_enomem:
  "fst (iob_tryalloc (example_state 100 0)) = None \<and>
   ipv6_hdrsize example_cfg (example_hdr IP_PROTO_UDP (addr 2)) (d_buf example_env) = 48 \<and>
   fst (stage example_cfg (d_buf example_env) 48 (example_state 100 0)) = - ENOMEM \<and>
   fst (ipv6_forward example_cfg example_env (example_hdr IP_PROTO_UDP (addr 2))
          (example_state 100 0)) = - ENOSYS \<and>
   fst (ipv6_forward example_cfg example_env (example_hdr IP_PROTO_UDP (addr 2))
          (example_state 100 0)) \<noteq> - ENOMEM \<and>
   iob_outstanding (snd (ipv6_forward example_cfg example_env
          (example_hdr IP_PROTO_UDP (addr 2)) (example_state 100 0)))
     = iob_outstanding (example_state 100 0)"
  by (simp add: ipv6_forward_def ipv6_packet_conversion_def cross_forward_def ipv6_hdrsize_def
      stage_def paysize_of_def iob_tryalloc_def errout_with_iob_def drop_exit_def
      iob_free_chain_def ipv6_dropstats_def example_defs const_defs)




text \<open>
  C8. In a cross-interface attempt whose classifier returned the header size \<open>h\<close>,
  \<open>ipv6_forward\<close> stages \<open>L\<close> bytes, where \<open>L\<close> is \<open>d_len - h\<close> in \<open>unsigned int\<close>
  arithmetic (line 381): the plain difference whenever the frame is at least as long as
  its headers. When \<open>L\<close> is zero it allocates nothing and reports no error: the next
  call is the forwarding path, with the null chain, and the pool is untouched. Otherwise
  it asks for a buffer; without one it releases the null chain and stops; with one it
  copies \<open>L\<close> bytes in, and when the copy succeeds the chain handed to the forwarding path
  holds exactly the \<open>L\<close> bytes that follow the headers.
\<close>

theorem C8_stager_payload_length:
  assumes "CONFIG_NETDEV_MULTINIC cfg"
    and "netdev_findby_ipv6addr env (Some (srcipaddr ipv6)) (destipaddr ipv6) = Some fwddev"
    and "fwddev \<noteq> dev env"
    and "fst (ipv6_packet_conversion cfg env fwddev ipv6 s) < 0"
    and "h = ipv6_hdrsize cfg ipv6 (d_buf env)"
    and "0 \<le> h"
    and "16 \<le> uint_bits cfg"
    and "L = nat ((uint (d_len s) - h) mod 2 ^ uint_bits cfg)"
  shows "(if h \<le> uint (d_len s) then int L = uint (d_len s) - h else 0 < L) \<and>
         (if L = 0
          then calls (snd (ipv6_forward cfg env ipv6 s)) =
                 calls s @ forward_event ipv6 None #
                   (if 0 \<le> fst (forward_path env ipv6 None s) then []
                    else [IOB_FREE_CHAIN None]) \<and>
               iob_outstanding (snd (ipv6_forward cfg env ipv6 s)) = iob_outstanding s \<and>
               iob_navail (snd (ipv6_forward cfg env ipv6 s)) = iob_navail s
          else if fst (iob_tryalloc s) = None
          then calls (snd (ipv6_forward cfg env ipv6 s)) =
                 calls s @ [IOB_TRYALLOC, IOB_FREE_CHAIN None]
          else (case iob_trycopyin cfg [[]] (d_buf env) (nat h) L (snd (iob_tryalloc s)) of
                  (ret, c, s2) \<Rightarrow>
                    if ret < 0
                    then calls (snd (ipv6_forward cfg env ipv6 s)) =
                           calls s @ [IOB_TRYALLOC, IOB_TRYCOPYIN L, IOB_FREE_CHAIN (Some c)]
                    else concat c = map (d_buf env) [nat h ..< nat h + L] \<and>
                         calls (snd (ipv6_forward cfg env ipv6 s)) =
                           calls s @
                           [IOB_TRYALLOC, IOB_TRYCOPYIN L, forward_event ipv6 (Some c)] @
                           (if 0 \<le> fst (forward_path env ipv6 (Some c) s2) then []
                            else [IOB_FREE_CHAIN (Some c)])))"
proof -
  let ?r = "ipv6_forward cfg env ipv6 s"
  have eq: "?r = cross_forward cfg env ipv6 s"
    using assms(1-4) by (rule ipv6_forward_cross)
  have h0: "0 \<le> ipv6_hdrsize cfg ipv6 (d_buf env)"
    using assms(5,6) by simp
  have le: "h \<le> 100"
    using ipv6_hdrsize_le [OF h0] assms(5) by simp
  have p: "paysize_of cfg (d_len s) h = L"
    by (simp add: paysize_of_def assms(8))
  have a: "if h \<le> uint (d_len s) then int L = uint (d_len s) - h else 0 < L"
  proof (cases "h \<le> uint (d_len s)")
    case True
    then show ?thesis
      using paysize_exact [OF assms(6) True assms(7)] p by simp
  next
    case False
    then have lt: "uint (d_len s) < h"
      by simp
    show ?thesis
      using paysize_truncated(3) [OF assms(6) le lt assms(7)] False p by simp
  qed
  have st_h: "stage cfg (d_buf env) (ipv6_hdrsize cfg ipv6 (d_buf env)) s = stage cfg (d_buf env) h s"
    by (simp add: assms(5))
  have b: "calls (snd ?r) =
        calls s @ forward_event ipv6 None #
          (if 0 \<le> fst (forward_path env ipv6 None s) then [] else [IOB_FREE_CHAIN None]) \<and>
      iob_outstanding (snd ?r) = iob_outstanding s \<and> iob_navail (snd ?r) = iob_navail s"
    if zero: "L = 0"
  proof -
    have st: "stage cfg (d_buf env) (ipv6_hdrsize cfg ipv6 (d_buf env)) s = (OK, None, s)"
      using zero p by (simp only: st_h) (simp add: stage_empty)
    have d: "?r = dispatch cfg env ipv6 None s"
      using cross_forward_dispatch [OF h0 st] by (simp add: eq OK_def)
    have o: "iob_outstanding (snd (dispatch cfg env ipv6 None s)) = iob_outstanding s \<and>
        iob_navail (snd (dispatch cfg env ipv6 None s)) = iob_navail s"
    proof (cases "0 \<le> fst (forward_path env ipv6 None s)")
      case True
      then show ?thesis
        by (simp add: dispatch_accept)
    next
      case False
      then show ?thesis
        by (simp add: dispatch_fail errout_with_iob_simps)
    qed
    show ?thesis
      using o by (simp add: d dispatch_calls)
  qed
  have c: "calls (snd ?r) = calls s @ [IOB_TRYALLOC, IOB_FREE_CHAIN None]"
    if pos: "L \<noteq> 0" and none: "fst (iob_tryalloc s) = None"
  proof -
    have empty: "iob_navail s = 0"
      using none iob_tryalloc_cases [of s] by auto
    have "0 < paysize_of cfg (d_len s) h"
      using pos p by simp
    then have st: "stage cfg (d_buf env) (ipv6_hdrsize cfg ipv6 (d_buf env)) s =
        (- ENOMEM, None, s\<lparr>calls := calls s @ [IOB_TRYALLOC]\<rparr>)"
      using empty by (simp only: st_h) (rule stage_noalloc)
    have "cross_forward cfg env ipv6 s =
        errout_with_iob cfg None (s\<lparr>calls := calls s @ [IOB_TRYALLOC]\<rparr>)"
      using h0 st by (rule cross_forward_stage_fail) (simp add: ENOMEM_def)
    then show ?thesis
      by (simp add: eq errout_with_iob_simps)
  qed
  have d: "case iob_trycopyin cfg [[]] (d_buf env) (nat h) L (snd (iob_tryalloc s)) of
        (ret, c, s2) \<Rightarrow>
          if ret < 0
          then calls (snd ?r) = calls s @ [IOB_TRYALLOC, IOB_TRYCOPYIN L, IOB_FREE_CHAIN (Some c)]
          else concat c = map (d_buf env) [nat h ..< nat h + L] \<and>
               calls (snd ?r) =
                 calls s @ [IOB_TRYALLOC, IOB_TRYCOPYIN L, forward_event ipv6 (Some c)] @
                 (if 0 \<le> fst (forward_path env ipv6 (Some c) s2) then []
                  else [IOB_FREE_CHAIN (Some c)])"
    if pos: "L \<noteq> 0" and some: "fst (iob_tryalloc s) \<noteq> None"
  proof -
    let ?sa = "snd (iob_tryalloc s)"
    have al: "iob_tryalloc s = (Some [[]], ?sa)" and ca: "calls ?sa = calls s @ [IOB_TRYALLOC]"
      using some iob_tryalloc_cases [of s] by auto
    obtain ret c s2 where
      cp: "iob_trycopyin cfg [[]] (d_buf env) (nat h) L ?sa = (ret, c, s2)"
      by (cases "iob_trycopyin cfg [[]] (d_buf env) (nat h) L ?sa") auto
    have c2: "calls s2 = calls s @ [IOB_TRYALLOC, IOB_TRYCOPYIN L]"
      using iob_trycopyin_frame(3) [OF cp] by (simp add: ca)
    have "0 < paysize_of cfg (d_len s) h"
      using pos p by simp
    then have "stage cfg (d_buf env) h s = (ret, Some c, s2)"
      using al cp p by (auto simp add: stage_def split: prod.splits option.splits)
    then have st: "stage cfg (d_buf env) (ipv6_hdrsize cfg ipv6 (d_buf env)) s = (ret, Some c, s2)"
      by (simp only: st_h)
    have "if ret < 0
          then calls (snd ?r) = calls s @ [IOB_TRYALLOC, IOB_TRYCOPYIN L, IOB_FREE_CHAIN (Some c)]
          else concat c = map (d_buf env) [nat h ..< nat h + L] \<and>
               calls (snd ?r) =
                 calls s @ [IOB_TRYALLOC, IOB_TRYCOPYIN L, forward_event ipv6 (Some c)] @
                 (if 0 \<le> fst (forward_path env ipv6 (Some c) s2) then []
                  else [IOB_FREE_CHAIN (Some c)])"
    proof (cases "ret < 0")
      case True
      then have "cross_forward cfg env ipv6 s = errout_with_iob cfg (Some c) s2"
        using cross_forward_stage_fail [OF h0 st] by simp
      then show ?thesis
        using True by (simp add: eq errout_with_iob_simps c2)
    next
      case False
      then have nn: "0 \<le> ret"
        by simp
      have "cross_forward cfg env ipv6 s = dispatch cfg env ipv6 (Some c) s2"
        using cross_forward_dispatch [OF h0 st nn] .
      then have "calls (snd ?r) =
          calls s2 @ forward_event ipv6 (Some c) #
            (if 0 \<le> fst (forward_path env ipv6 (Some c) s2) then []
             else [IOB_FREE_CHAIN (Some c)])"
        by (simp add: eq dispatch_calls)
      then show ?thesis
        using False iob_trycopyin_concat [OF cp nn] by (simp add: c2)
    qed
    then show ?thesis
      by (simp add: cp)
  qed
  show ?thesis
    using a b c d by (simp only: if_split) blast
qed

theorem C8_stager_payload_length_witness:
  "CONFIG_NETDEV_MULTINIC example_cfg \<and>
   netdev_findby_ipv6addr example_env (Some (srcipaddr (example_hdr IP_PROTO_UDP (addr 2))))
     (destipaddr (example_hdr IP_PROTO_UDP (addr 2))) = Some 2 \<and>
   2 \<noteq> dev example_env \<and>
   fst (ipv6_packet_conversion example_cfg example_env 2 (example_hdr IP_PROTO_UDP (addr 2))
          (example_state 100 4)) < 0 \<and>
   fst (ipv6_packet_conversion example_cfg example_env 2 (example_hdr IP_PROTO_UDP (addr 2))
          (example_state 48 4)) < 0 \<and>
   ipv6_hdrsize example_cfg (example_hdr IP_PROTO_UDP (addr 2)) (d_buf example_env) = 48 \<and>
   16 \<le> uint_bits example_cfg \<and>
   nat ((uint (d_len (example_state 100 4)) - 48) mod 2 ^ uint_bits example_cfg) = 52 \<and>
   nat ((uint (d_len (example_state 48 4)) - 48) mod 2 ^ uint_bits example_cfg) = 0 \<and>
   calls (snd (ipv6_forward example_cfg example_env (example_hdr IP_PROTO_UDP (addr 2))
          (example_state 100 4))) =
     [IOB_TRYALLOC, IOB_TRYCOPYIN 52,
      IPV6_DEV_FORWARD (Some [map example_frame [48 ..< 100]]),
      IOB_FREE_CHAIN (Some [map example_frame [48 ..< 100]])] \<and>
   calls (snd (ipv6_forward example_cfg example_env (example_hdr IP_PROTO_UDP (addr 2))
          (example_state 48 4))) = [IPV6_DEV_FORWARD None, IOB_FREE_CHAIN None] \<and>
   iob_outstanding (snd (ipv6_forward example_cfg example_env
          (example_hdr IP_PROTO_UDP (addr 2)) (example_state 48 4))) = 0"
proof -
  let ?hdr = "example_hdr IP_PROTO_UDP (addr 2)"
  let ?a = "example_state 100 4"
  let ?b = "example_state 48 4"
  let ?h = "ipv6_hdrsize example_cfg ?hdr (d_buf example_env)"
  have h1: "CONFIG_NETDEV_MULTINIC example_cfg"
    by (simp add: example_defs)
  have h2: "netdev_findby_ipv6addr example_env (Some (srcipaddr ?hdr)) (destipaddr ?hdr) = Some 2"
    by (simp add: example_defs)
  have h3: "2 \<noteq> dev example_env"
    by (simp add: example_defs)
  have h4a: "fst (ipv6_packet_conversion example_cfg example_env 2 ?hdr ?a) < 0"
    by (simp add: ipv6_packet_conversion_def example_defs const_defs)
  have h4b: "fst (ipv6_packet_conversion example_cfg example_env 2 ?hdr ?b) < 0"
    by (simp add: ipv6_packet_conversion_def example_defs const_defs)
  have v: "?h = 48"
    by (simp add: ipv6_hdrsize_def example_defs const_defs)
  have h6: "0 \<le> ?h"
    by (simp add: v)
  have h7: "16 \<le> uint_bits example_cfg"
    by (simp add: example_defs)
  have la: "nat ((uint (d_len ?a) - 48) mod 2 ^ uint_bits example_cfg) = 52"
    by (simp add: example_defs)
  have lb: "nat ((uint (d_len ?b) - 48) mod 2 ^ uint_bits example_cfg) = 0"
    by (simp add: example_defs)
  have al: "fst (iob_tryalloc ?a) \<noteq> None"
    by (simp add: iob_tryalloc_def example_defs)
  have cp: "iob_trycopyin example_cfg [[]] (d_buf example_env) 48 52 (snd (iob_tryalloc ?a)) =
      (OK, [map example_frame [48 ..< 100]],
       ?a\<lparr>iob_navail := 3, iob_outstanding := 1, calls := [IOB_TRYALLOC, IOB_TRYCOPYIN 52]\<rparr>)"
    by (simp add: iob_tryalloc_def iob_trycopyin_def iob_fill_zero Let_def example_defs const_defs)
  have fa: "\<not> 0 \<le> fst (forward_path example_env ?hdr iob st)" for iob st
    by (simp add: forward_path_def ipv6_dev_forward_def example_defs const_defs)
  have ev: "forward_event ?hdr iob = IPV6_DEV_FORWARD iob" for iob
    by (simp add: forward_event_def example_defs const_defs)
  have s0: "calls ?a = []" "calls ?b = []" "iob_outstanding ?b = 0"
    by (simp_all add: example_defs)
  have ta: "calls (snd (ipv6_forward example_cfg example_env ?hdr ?a)) =
     [IOB_TRYALLOC, IOB_TRYCOPYIN 52,
      IPV6_DEV_FORWARD (Some [map example_frame [48 ..< 100]]),
      IOB_FREE_CHAIN (Some [map example_frame [48 ..< 100]])]"
    using C8_stager_payload_length [OF h1 h2 h3 h4a refl h6 h7 refl] al
    by (simp only: v la) (simp add: cp fa ev s0 OK_def)
  have tb: "calls (snd (ipv6_forward example_cfg example_env ?hdr ?b)) =
        [IPV6_DEV_FORWARD None, IOB_FREE_CHAIN None] \<and>
      iob_outstanding (snd (ipv6_forward example_cfg example_env ?hdr ?b)) = 0"
    using C8_stager_payload_length [OF h1 h2 h3 h4b refl h6 h7 refl]
    by (simp only: v lb) (simp add: fa ev s0)
  show ?thesis
    using h1 h2 h3 h4a h4b v h7 la lb ta tb by simp
qed

text \<open>
  C10. In a cross-interface attempt whose classifier succeeded on a frame shorter than the
  header size it computed, \<open>paysize\<close> is \<open>2 ^ uint_bits - (hdrsize - d_len)\<close>, at most
  100 below \<open>2 ^ uint_bits\<close>. No check intervenes: the next thing \<open>ipv6_forward\<close> does is
  to ask for a buffer and, if it gets one, to copy that many bytes in.
\<close>

theorem C10_truncated_frame_wraps:
  assumes "CONFIG_NETDEV_MULTINIC cfg"
    and "netdev_findby_ipv6addr env (Some (srcipaddr ipv6)) (destipaddr ipv6) = Some fwddev"
    and "fwddev \<noteq> dev env"
    and "fst (ipv6_packet_conversion cfg env fwddev ipv6 s) < 0"
    and "0 \<le> ipv6_hdrsize cfg ipv6 (d_buf env)"
    and "uint (d_len s) < ipv6_hdrsize cfg ipv6 (d_buf env)"
    and "16 \<le> uint_bits cfg"
  shows "int (paysize_of cfg (d_len s) (ipv6_hdrsize cfg ipv6 (d_buf env))) =
           2 ^ uint_bits cfg - (ipv6_hdrsize cfg ipv6 (d_buf env) - uint (d_len s)) \<and>
         2 ^ uint_bits cfg - 100 \<le>
           int (paysize_of cfg (d_len s) (ipv6_hdrsize cfg ipv6 (d_buf env))) \<and>
         (\<exists>rest. calls (snd (ipv6_forward cfg env ipv6 s)) =
            calls s @ IOB_TRYALLOC #
              (if 0 < iob_navail s
               then [IOB_TRYCOPYIN (paysize_of cfg (d_len s) (ipv6_hdrsize cfg ipv6 (d_buf env)))]
               else []) @ rest)"
proof -
  let ?h = "ipv6_hdrsize cfg ipv6 (d_buf env)"
  let ?p = "paysize_of cfg (d_len s) ?h"
  have eq: "ipv6_forward cfg env ipv6 s = cross_forward cfg env ipv6 s"
    using assms(1-4) by (rule ipv6_forward_cross)
  have le: "?h \<le> 100"
    using assms(5) by (rule ipv6_hdrsize_le)
  note t = paysize_truncated [OF assms(5) le assms(6,7)]
  obtain rest where "calls (snd (cross_forward cfg env ipv6 s)) =
      calls (snd (snd (stage cfg (d_buf env) ?h s))) @ rest"
    using cross_forward_calls [OF assms(5), of s] by blast
  then have "calls (snd (ipv6_forward cfg env ipv6 s)) =
      calls s @ IOB_TRYALLOC # (if 0 < iob_navail s then [IOB_TRYCOPYIN ?p] else []) @ rest"
    using t(3) by (simp add: eq stage_calls)
  then show ?thesis
    using t(1,2) by blast
qed


theorem C10_truncated_frame_wraps_witness:
  "CONFIG_NETDEV_MULTINIC example_cfg \<and>
   netdev_findby_ipv6addr example_env (Some (srcipaddr (example_hdr IP_PROTO_UDP (addr 2))))
     (destipaddr (example_hdr IP_PROTO_UDP (addr 2))) = Some 2 \<and>
   2 \<noteq> dev example_env \<and>
   fst (ipv6_packet_conversion example_cfg example_env 2 (example_hdr IP_PROTO_UDP (addr 2))
          (example_state 10 4)) < 0 \<and>
   ipv6_hdrsize example_cfg (example_hdr IP_PROTO_UDP (addr 2)) (d_buf example_env) = 48 \<and>
   uint (d_len (example_state 10 4)) = 10 \<and>
   16 \<le> uint_bits example_cfg \<and>
   int (paysize_of example_cfg (d_len (example_state 10 4)) 48) = 4294967258 \<and>
   (\<exists>rest. calls (snd (ipv6_forward example_cfg example_env (example_hdr IP_PROTO_UDP (addr 2))
          (example_state 10 4))) = IOB_TRYALLOC # IOB_TRYCOPYIN 4294967258 # rest)"
proof -
  let ?hdr = "example_hdr IP_PROTO_UDP (addr 2)"
  let ?s = "example_state 10 4"
  have h1: "CONFIG_NETDEV_MULTINIC example_cfg"
    by (simp add: example_defs)
  have h2: "netdev_findby_ipv6addr example_env (Some (srcipaddr ?hdr)) (destipaddr ?hdr) = Some 2"
    by (simp add: example_defs)
  have h3: "2 \<noteq> dev example_env"
    by (simp add: example_defs)
  have h4: "fst (ipv6_packet_conversion example_cfg example_env 2 ?hdr ?s) < 0"
    by (simp add: ipv6_packet_conversion_def example_defs const_defs)
  have v: "ipv6_hdrsize example_cfg ?hdr (d_buf example_env) = 48"
    by (simp add: ipv6_hdrsize_def example_defs const_defs)
  have d: "uint (d_len ?s) = 10"
    by (simp add: example_defs)
  have h5: "0 \<le> ipv6_hdrsize example_cfg ?hdr (d_buf example_env)"
    by (simp add: v)
  have h6: "uint (d_len ?s) < ipv6_hdrsize example_cfg ?hdr (d_buf example_env)"
    by (simp add: v d)
  have h7: "16 \<le> uint_bits example_cfg"
    by (simp add: example_defs)
  have s0: "iob_navail ?s = 4" "calls ?s = []" "uint_bits example_cfg = 32"
    by (simp_all add: example_defs)
  have p: "paysize_of example_cfg (d_len ?s) 48 = 4294967258"
    by (simp add: paysize_of_def example_defs)
  show ?thesis
    using h1 h2 h3 h4 v d h7 C10_truncated_frame_wraps [OF h1 h2 h3 h4 h5 h6 h7]
    by (simp add: v p s0)
qed

end
